theory Spec2Isabelle
  imports Complex_Main "HOL-Library.AList"
begin

unbundle bit_operations_syntax

section \<open>The Desk client of \<^verbatim>\<open>src/panda_desk/desk.py\<close>\<close>

text \<open>
  The development embeds the class \<^verbatim>\<open>Desk\<close>: its constructor, the HTTP transport
  \<^verbatim>\<open>_request\<close>, the token store (\<^verbatim>\<open>_load_token\<close>, \<^verbatim>\<open>_save_token\<close>), the control
  arbitration (\<^verbatim>\<open>_get_active_token\<close>, \<^verbatim>\<open>check_has_control\<close>, \<^verbatim>\<open>take_control\<close>), the
  platform-gated operations, the condition waits and \<^verbatim>\<open>encode_password\<close>.

  Python text is a \<^typ>\<open>string\<close> holding the UTF-8 bytes of the text, so that
  \<^verbatim>\<open>s.encode('utf-8')\<close> reads the characters as bytes and concatenation is \<open>@\<close>.
  Everything outside the process is an explicit \<open>world\<close>: the answers the device will
  give, the requests sent so far, standard output, the \<^verbatim>\<open>desk\<close> logger, the token file
  and the frames the two WebSocket channels used here will deliver.
\<close>

subsection \<open>Errors\<close>

datatype error =
    ValueError string
  | ConnectionError string
  | TypeError string
  | TransportError
  | JSONDecodeError
  | KeyError string
  | NoSectionError string
  | NoOptionError string string
  | ConnectionClosed

subsection \<open>Data\<close>

text \<open>The dataclass \<^verbatim>\<open>Token\<close>; \<^verbatim>\<open>Token()\<close> is the empty sentinel.\<close>

record Token =
  token_id :: string
  owned_by :: string
  token :: string

definition Token0 :: Token where
  "Token0 = \<lparr>token_id = '''', owned_by = '''', token = ''''\<rparr>"

record Desk =
  legacy :: bool
  platform :: string
  hostname :: string
  logged_in :: bool
  username :: string
  desk_token :: Token
  authorization :: "string option"

subsection \<open>HTTP\<close>

datatype http_method = Get | Post | Delete

fun method_name :: "http_method \<Rightarrow> string" where
  "method_name Get = ''get''"
| "method_name Post = ''post''"
| "method_name Delete = ''delete''"

type_synonym fields = "(string \<times> string) list"

record http_request =
  meth :: http_method
  url :: string
  headers :: "fields option"
  json :: "fields option"
  files :: "fields option"
  timeout :: nat

text \<open>
  The body of a response in decoded form, as \<^verbatim>\<open>response.json()\<close> gives it. Only the
  three objects the arbitration reads are told apart, by the keys they carry:
  \<^verbatim>\<open>{"activeToken": null | {"id": int, "ownedBy": str}}\<close>,
  \<^verbatim>\<open>{"id": int, "token": str}\<close> and \<^verbatim>\<open>{"tokenForceTimeout": int}\<close>.
  \<open>OtherObject\<close> is a JSON object with none of these keys, \<open>NotJson\<close> a body that does
  not decode.
\<close>

record active_token =
  at_id :: int
  at_ownedBy :: string

datatype payload =
    ControlTokenStatus "active_token option"
  | TokenGrant int string
  | SafetySettings int
  | OtherObject
  | NotJson

record response =
  status_code :: int
  response_text :: string
  body :: payload

datatype level = Info | Warning

type_synonym config = "(string \<times> fields) list"

text \<open>
  What a WebSocket delivers: a message that decodes to an object of the channel's schema,
  a message that does not decode, or the end of the connection.
\<close>

datatype 'a frame = Message 'a | Malformed | Closed

type_synonym 'a channel = "(real \<times> 'a frame) list"

type_synonym button_event = "(string \<times> bool) list"

record safety_status =
  brakeState :: "string list"

text \<open>
  \<open>responses\<close> are the answers of the device to the next requests, in order; with none
  left the HTTP client raises instead of returning. \<open>token_file\<close> is the parsed content
  of \<^verbatim>\<open>~/.panda_py/token.conf\<close> (\<open>None\<close>: no such file), one section per host in file
  order, as \<^verbatim>\<open>configparser\<close> reads and writes it; the text of the file, and with it the
  section names and values that \<^verbatim>\<open>configparser\<close> cannot write and read back, are left
  aside. \<open>token_dir\<close> says whether the parent directory of the file exists. A channel lists the frames a new subscription will receive, each with
  its arrival time in seconds after the subscription starts; after the last frame nothing
  arrives any more.
\<close>

record world =
  responses :: "response list"
  sent :: "http_request list"
  stdout :: "string list"
  logged :: "(level \<times> string) list"
  token_dir :: bool
  token_file :: "config option"
  navigation_events :: "button_event channel"
  safety_frames :: "safety_status channel"

definition py_print :: "string \<Rightarrow> world \<Rightarrow> world" where
  "py_print s w = w\<lparr>stdout := stdout w @ [s]\<rparr>"

definition log_msg :: "level \<Rightarrow> string \<Rightarrow> world \<Rightarrow> world" where
  "log_msg l s w = w\<lparr>logged := logged w @ [(l, s)]\<rparr>"

text \<open>
  \<^verbatim>\<open>parse.urljoin(f"https://{hostname}", url)\<close> for a host name without path and a
  \<open>url\<close> that is an absolute path or empty, the only use the class makes of it.
\<close>

definition urljoin :: "string \<Rightarrow> string \<Rightarrow> string" where
  "urljoin host path = ''https://'' @ host @ path"

text \<open>
  \<^verbatim>\<open>_request\<close>: the keywords \<^verbatim>\<open>json\<close> and \<^verbatim>\<open>files\<close> are passed on for every method
  but \<^verbatim>\<open>get\<close>. The client's \<^verbatim>\<open>post\<close> takes them; \<^verbatim>\<open>httpx.AsyncClient.delete\<close>, like
  \<^verbatim>\<open>get\<close>, has no such parameters (only params, headers, cookies, auth,
  follow_redirects, timeout, extensions), so a \<^verbatim>\<open>delete\<close> call fails with a
  \<^verbatim>\<open>TypeError\<close> before anything is sent. Any status other than 200 prints a line and
  raises \<^verbatim>\<open>ConnectionError(response.text)\<close>.
\<close>

definition request ::
  "Desk \<Rightarrow> http_method \<Rightarrow> string \<Rightarrow> fields option \<Rightarrow> fields option \<Rightarrow> fields option \<Rightarrow> nat
    \<Rightarrow> world \<Rightarrow> (error + response) \<times> world" where
  "request d m path hdrs js fs tmo w =
     (let u = urljoin (hostname d) path;
          req = \<lparr>meth = m, url = u, headers = hdrs,
                 json = (if m \<noteq> Get then js else None),
                 files = (if m \<noteq> Get then fs else None),
                 timeout = tmo\<rparr>;
          w1 = w\<lparr>sent := sent w @ [req]\<rparr>
      in if m = Delete
         then (Inl (TypeError ''delete() got an unexpected keyword argument json''), w)
         else case responses w of
           [] \<Rightarrow> (Inl TransportError, w1)
         | r # rs \<Rightarrow>
             (let w2 = w1\<lparr>responses := rs\<rparr>
              in if status_code r \<noteq> 200
                 then (Inl (ConnectionError (response_text r)),
                       py_print (''Attemped to connect to '' @ u @ '' with method '' @ method_name m
                              @ '' and got response '' @ response_text r) w2)
                 else (Inr r, w2)))"

subsection \<open>Text helpers\<close>

text \<open>\<^verbatim>\<open>str(n)\<close> for an integer: decimal digits, with a minus sign below zero.\<close>

definition digit_char :: "nat \<Rightarrow> char" where
  "digit_char n = ''0123456789'' ! n"

fun dec_nat :: "nat \<Rightarrow> string" where
  "dec_nat n = (if n < 10 then [digit_char n] else dec_nat (n div 10) @ [digit_char (n mod 10)])"

declare dec_nat.simps [simp del]

definition str_int :: "int \<Rightarrow> string" where
  "str_int i = (if i < 0 then CHR ''-'' # dec_nat (nat (- i)) else dec_nat (nat i))"

text \<open>\<^verbatim>\<open>s.lower()\<close>, on the letters A to Z.\<close>

definition lower_char :: "char \<Rightarrow> char" where
  "lower_char c =
     (case map_of (zip ''ABCDEFGHIJKLMNOPQRSTUVWXYZ'' ''abcdefghijklmnopqrstuvwxyz'') c of
        Some l \<Rightarrow> l
      | None \<Rightarrow> c)"

definition lower :: "string \<Rightarrow> string" where
  "lower s = map lower_char s"

subsection \<open>Reading a decoded body\<close>

definition response_json :: "response \<Rightarrow> error + payload" where
  "response_json r = (case body r of NotJson \<Rightarrow> Inl JSONDecodeError | j \<Rightarrow> Inr j)"

fun get_activeToken :: "payload \<Rightarrow> error + active_token option" where
  "get_activeToken (ControlTokenStatus a) = Inr a"
| "get_activeToken _ = Inl (KeyError ''activeToken'')"

fun get_id :: "payload \<Rightarrow> error + int" where
  "get_id (TokenGrant i s) = Inr i"
| "get_id _ = Inl (KeyError ''id'')"

fun get_token :: "payload \<Rightarrow> error + string" where
  "get_token (TokenGrant i s) = Inr s"
| "get_token _ = Inl (KeyError ''token'')"

fun get_tokenForceTimeout :: "payload \<Rightarrow> error + int" where
  "get_tokenForceTimeout (SafetySettings n) = Inr n"
| "get_tokenForceTimeout _ = Inl (KeyError ''tokenForceTimeout'')"

subsection \<open>Token store\<close>

definition has_section :: "config \<Rightarrow> string \<Rightarrow> bool" where
  "has_section c s = (s \<in> set (map fst c))"

definition config_get :: "config \<Rightarrow> string \<Rightarrow> string \<Rightarrow> error + string" where
  "config_get c s opt =
     (case map_of c s of
        None \<Rightarrow> Inl (NoSectionError s)
      | Some kv \<Rightarrow> (case map_of kv opt of None \<Rightarrow> Inl (NoOptionError opt s) | Some v \<Rightarrow> Inr v))"

text \<open>\<^verbatim>\<open>_load_token\<close>: the record of this host, or the empty sentinel.\<close>

definition load_token :: "Desk \<Rightarrow> world \<Rightarrow> error + Token" where
  "load_token d w =
     (case token_file w of
        None \<Rightarrow> Inr Token0
      | Some c \<Rightarrow>
          if has_section c (hostname d)
          then (case config_get c (hostname d) ''id'' of
                  Inl e \<Rightarrow> Inl e
                | Inr i \<Rightarrow>
                    (case config_get c (hostname d) ''owned_by'' of
                       Inl e \<Rightarrow> Inl e
                     | Inr ob \<Rightarrow>
                         (case config_get c (hostname d) ''token'' of
                            Inl e \<Rightarrow> Inl e
                          | Inr s \<Rightarrow> Inr \<lparr>token_id = i, owned_by = ob, token = s\<rparr>)))
          else Inr Token0)"

text \<open>
  \<^verbatim>\<open>_save_token\<close>: read the file if it exists, assign this host's section (an
  existing section is replaced where it stands, a new one is added last), create the
  directory, write every section back, and hold the token.
\<close>

definition save_token :: "Token \<Rightarrow> Desk \<Rightarrow> world \<Rightarrow> Desk \<times> world" where
  "save_token t d w =
     (let config = (case token_file w of None \<Rightarrow> [] | Some c \<Rightarrow> c);
          config' = AList.update (hostname d)
                      [(''id'', token_id t), (''owned_by'', owned_by t), (''token'', token t)] config
      in (d\<lparr>desk_token := t\<rparr>, w\<lparr>token_dir := True, token_file := Some config'\<rparr>))"

subsection \<open>Construction\<close>

text \<open>
  \<^verbatim>\<open>__init__\<close>: \<^verbatim>\<open>_legacy\<close> starts as \<^verbatim>\<open>False\<close>; the platform name is checked in
  lower case and \<^verbatim>\<open>_platform\<close> set to the canonical name, then assigned again from the
  argument as given.
\<close>

definition init :: "string \<Rightarrow> string \<Rightarrow> world \<Rightarrow> error + Desk" where
  "init host plat w =
     (let d0 = \<lparr>legacy = False, platform = '''', hostname = '''', logged_in = False,
                username = '''', desk_token = Token0, authorization = None\<rparr>
      in case (if lower plat \<in> set [''panda'', ''fer'', ''franka_emika_robot'', ''frankaemikarobot'']
               then Inr (d0\<lparr>platform := ''panda''\<rparr>)
               else if lower plat \<in> set [''fr3'', ''frankaresearch3'', ''franka_research_3'']
               then Inr (d0\<lparr>platform := ''fr3''\<rparr>)
               else Inl (ValueError ''Unknown platform! Must be either 'panda' or 'fr3'!'')) of
           Inl e \<Rightarrow> Inl e
         | Inr d1 \<Rightarrow>
             (let d2 = d1\<lparr>hostname := host, platform := plat, logged_in := False,
                           username := ''Not set''\<rparr>
              in case load_token d2 w of
                   Inl e \<Rightarrow> Inl e
                 | Inr t \<Rightarrow> Inr (d2\<lparr>desk_token := t\<rparr>)))"

subsection \<open>Condition waits\<close>

text \<open>
  What a wait on a channel comes to: it returns a value, or raises, on the \<open>n\<close>-th frame
  received, at that frame's arrival time; or it never returns.
\<close>

datatype 'a outcome = Returned nat real 'a | Raised nat real error | Pending

fun later :: "'a outcome \<Rightarrow> 'a outcome" where
  "later (Returned n t v) = Returned (Suc n) t v"
| "later (Raised n t e) = Raised (Suc n) t e"
| "later Pending = Pending"

text \<open>
  \<^verbatim>\<open>wait_for_press\<close>, over the frames of \<^verbatim>\<open>desk/api/navigation/events\<close>: the first
  event that has the button as a key with value \<^verbatim>\<open>True\<close>.
\<close>

fun wait_for_press :: "string \<Rightarrow> button_event channel \<Rightarrow> button_event outcome" where
  "wait_for_press button [] = Pending"
| "wait_for_press button ((t, Closed) # ch) = Raised 1 t ConnectionClosed"
| "wait_for_press button ((t, Malformed) # ch) = Raised 1 t JSONDecodeError"
| "wait_for_press button ((t, Message e) # ch) =
     (if button \<in> set (map fst e) \<and> map_of e button = Some True then Returned 1 t e
      else later (wait_for_press button ch))"

text \<open>
  \<^verbatim>\<open>wait_for_brakes_to_open\<close>, over the frames of \<^verbatim>\<open>admin/api/safety/status\<close>:
  \<^verbatim>\<open>all([b == "Unlocked" for b in status['brakeState']])\<close>.
\<close>

fun wait_for_brakes_to_open :: "safety_status channel \<Rightarrow> unit outcome" where
  "wait_for_brakes_to_open [] = Pending"
| "wait_for_brakes_to_open ((t, Closed) # ch) = Raised 1 t ConnectionClosed"
| "wait_for_brakes_to_open ((t, Malformed) # ch) = Raised 1 t JSONDecodeError"
| "wait_for_brakes_to_open ((t, Message status) # ch) =
     (let brakes_unlocked = map (\<lambda>b. b = ''Unlocked'') (brakeState status)
      in if list_all (\<lambda>x. x) brakes_unlocked then Returned 1 t ()
         else later (wait_for_brakes_to_open ch))"

text \<open>
  \<^verbatim>\<open>with trio.move_on_after(seconds) as cancel_scope\<close> around a wait: the body runs to
  its end if that comes before the deadline; otherwise it is cancelled at the deadline
  and \<^verbatim>\<open>cancel_scope.cancel_called\<close> is set.
\<close>

datatype 'a scope_exit = Completed 'a | Failed error | Cancelled

definition move_on_after :: "real \<Rightarrow> 'a outcome \<Rightarrow> 'a scope_exit" where
  "move_on_after seconds run =
     (case run of
        Returned n t v \<Rightarrow> if t < seconds then Completed v else Cancelled
      | Raised n t e \<Rightarrow> if t < seconds then Failed e else Cancelled
      | Pending \<Rightarrow> Cancelled)"

subsection \<open>Control arbitration\<close>

definition get_active_token :: "Desk \<Rightarrow> world \<Rightarrow> (error + Token) \<times> world" where
  "get_active_token d w =
     (if legacy d then (Inr Token0, w)
      else case request d Get ''/admin/api/control-token'' None None None 5 w of
             (Inl e, w1) \<Rightarrow> (Inl e, w1)
           | (Inr r, w1) \<Rightarrow>
               (case response_json r of
                  Inl e \<Rightarrow> (Inl e, w1)
                | Inr response \<Rightarrow>
                    (case get_activeToken response of
                       Inl e \<Rightarrow> (Inl e, w1)
                     | Inr None \<Rightarrow> (Inr Token0, w1)
                     | Inr (Some a) \<Rightarrow>
                         (Inr (Token0\<lparr>token_id := str_int (at_id a), owned_by := at_ownedBy a\<rparr>),
                          w1))))"

definition check_has_control :: "Desk \<Rightarrow> world \<Rightarrow> (error + bool) \<times> world" where
  "check_has_control d w =
     (case get_active_token d w of
        (Inl e, w1) \<Rightarrow> (Inl e, w1)
      | (Inr t, w1) \<Rightarrow> (Inr (token_id (desk_token d) = token_id t), w1))"

text \<open>
  The \<^verbatim>\<open>if force:\<close> block of \<^verbatim>\<open>take_control\<close>: read the confirmation window, wait
  that long for the circle button. \<open>Inr False\<close> is the early \<^verbatim>\<open>return False\<close>.
\<close>

definition confirm_force :: "Desk \<Rightarrow> world \<Rightarrow> (error + bool) \<times> world" where
  "confirm_force d w =
     (case request d Get ''/admin/api/safety'' None None None 5 w of
        (Inl e, w1) \<Rightarrow> (Inl e, w1)
      | (Inr r, w1) \<Rightarrow>
          (case response_json r of
             Inl e \<Rightarrow> (Inl e, w1)
           | Inr j \<Rightarrow>
               (case get_tokenForceTimeout j of
                  Inl e \<Rightarrow> (Inl e, w1)
                | Inr tmo \<Rightarrow>
                    (let w2 = log_msg Warning
                                (''You have '' @ str_int tmo
                                 @ '' seconds to confirm control by pressing circle button on robot.'') w1
                     in if tmo < 0 then (Inl (ValueError ''timeout must be non-negative''), w2)
                        else case move_on_after (real_of_int tmo)
                                    (wait_for_press ''circle'' (navigation_events w2)) of
                               Failed e \<Rightarrow> (Inl e, w2)
                             | Cancelled \<Rightarrow>
                                 (Inr False, log_msg Warning ''Control not confirmed. Giving up.'' w2)
                             | Completed e \<Rightarrow> (Inr True, w2)))))"

definition take_control :: "bool \<Rightarrow> Desk \<Rightarrow> world \<Rightarrow> (error + bool) \<times> Desk \<times> world" where
  "take_control force d w =
     (if legacy d then (Inr True, d, w)
      else case get_active_token d w of
             (Inl e, w1) \<Rightarrow> (Inl e, d, w1)
           | (Inr active, w1) \<Rightarrow>
               if token_id active \<noteq> '''' \<and> token_id (desk_token d) = token_id active
               then (Inr True, d, log_msg Info ''Retaken control.'' w1)
               else if token_id active \<noteq> '''' \<and> \<not> force
               then (Inr False, d,
                     log_msg Warning
                       (''Cannot take control. User '' @ owned_by active @ '' is in control.'') w1)
               else
                 (case request d Post
                         (''/admin/api/control-token/request'' @ (if force then ''?force'' else ''''))
                         None (Some [(''requestedBy'', username d)]) None 5 w1 of
                    (Inl e, w2) \<Rightarrow> (Inl e, d, w2)
                  | (Inr r, w2) \<Rightarrow>
                      (case response_json r of
                         Inl e \<Rightarrow> (Inl e, d, w2)
                       | Inr response \<Rightarrow>
                           (case (if force then confirm_force d w2 else (Inr True, w2)) of
                              (Inl e, w3) \<Rightarrow> (Inl e, d, w3)
                            | (Inr False, w3) \<Rightarrow> (Inr False, d, w3)
                            | (Inr True, w3) \<Rightarrow>
                                (case get_id response of
                                   Inl e \<Rightarrow> (Inl e, d, w3)
                                 | Inr i \<Rightarrow>
                                     (case get_token response of
                                        Inl e \<Rightarrow> (Inl e, d, w3)
                                      | Inr s \<Rightarrow>
                                          (case save_token
                                                  \<lparr>token_id = str_int i, owned_by = username d,
                                                   token = s\<rparr> d w3 of
                                             (d', w4) \<Rightarrow>
                                               (Inr True, d', log_msg Info ''Taken control.'' w4))))))))"

subsection \<open>Platform-gated operations\<close>

definition set_mode :: "string \<Rightarrow> Desk \<Rightarrow> world \<Rightarrow> (error + unit) \<times> world" where
  "set_mode mode d w =
     (if platform d = ''panda''
      then (Inr (), py_print ''Old panda platform does not support this function'' w)
      else case (if mode = ''execution'' then Inr ''/desk/api/operating-mode/execution''
                 else if mode = ''programming'' then Inr ''/desk/api/operating-mode/programming''
                 else Inl (ValueError (''Unknown mode '' @ mode))) of
             Inl e \<Rightarrow> (Inl e, w)
           | Inr u \<Rightarrow>
               (case request d Post u (Some [(''X-Control-Token'', token (desk_token d))])
                       None None 50 w of
                  (Inl e, w1) \<Rightarrow> (Inl e, w1)
                | (Inr r, w1) \<Rightarrow> (Inr (), log_msg Info (''Set mode to '' @ mode @ ''.'') w1)))"

definition activate_fci :: "Desk \<Rightarrow> world \<Rightarrow> (error + unit) \<times> world" where
  "activate_fci d w =
     (if \<not> legacy d
      then case request d Post ''/admin/api/control-token/fci'' None
                  (Some [(''token'', token (desk_token d))]) None 5 w of
             (Inl e, w1) \<Rightarrow> (Inl e, w1)
           | (Inr r, w1) \<Rightarrow> (Inr (), w1)
      else (Inr (), w))"

definition deactivate_fci :: "Desk \<Rightarrow> world \<Rightarrow> (error + unit) \<times> world" where
  "deactivate_fci d w =
     (if \<not> legacy d
      then case request d Delete ''/admin/api/control-token/fci'' None
                  (Some [(''token'', token (desk_token d))]) None 5 w of
             (Inl e, w1) \<Rightarrow> (Inl e, w1)
           | (Inr r, w1) \<Rightarrow> (Inr (), w1)
      else (Inr (), w))"

subsection \<open>Password digest\<close>

text \<open>
  \<^verbatim>\<open>hashlib.sha256\<close>: SHA-256 as FIPS 180-4 defines it, on bytes as numbers below 256 and
  32-bit words as natural numbers, with the wrap-around of each operation written out.
\<close>

definition add32 :: "nat \<Rightarrow> nat \<Rightarrow> nat" where
  "add32 x y = (x + y) mod 4294967296"

definition rotr :: "nat \<Rightarrow> nat \<Rightarrow> nat" where
  "rotr n x = x div 2 ^ n + (x mod 2 ^ n) * 2 ^ (32 - n)"

definition shr :: "nat \<Rightarrow> nat \<Rightarrow> nat" where
  "shr n x = x div 2 ^ n"

definition not32 :: "nat \<Rightarrow> nat" where
  "not32 x = 4294967295 - x"

definition Ch :: "nat \<Rightarrow> nat \<Rightarrow> nat \<Rightarrow> nat" where
  "Ch x y z = (x AND y) XOR (not32 x AND z)"

definition Maj :: "nat \<Rightarrow> nat \<Rightarrow> nat \<Rightarrow> nat" where
  "Maj x y z = (x AND y) XOR (x AND z) XOR (y AND z)"

definition Sigma0 :: "nat \<Rightarrow> nat" where
  "Sigma0 x = rotr 2 x XOR rotr 13 x XOR rotr 22 x"

definition Sigma1 :: "nat \<Rightarrow> nat" where
  "Sigma1 x = rotr 6 x XOR rotr 11 x XOR rotr 25 x"

definition sigma0 :: "nat \<Rightarrow> nat" where
  "sigma0 x = rotr 7 x XOR rotr 18 x XOR shr 3 x"

definition sigma1 :: "nat \<Rightarrow> nat" where
  "sigma1 x = rotr 17 x XOR rotr 19 x XOR shr 10 x"

definition K256 :: "nat list" where
  "K256 = [1116352408, 1899447441, 3049323471, 3921009573, 961987163, 1508970993, 2453635748, 2870763221, 3624381080, 310598401, 607225278, 1426881987, 1925078388, 2162078206, 2614888103, 3248222580, 3835390401, 4022224774, 264347078, 604807628, 770255983, 1249150122, 1555081692, 1996064986, 2554220882, 2821834349, 2952996808, 3210313671, 3336571891, 3584528711, 113926993, 338241895, 666307205, 773529912, 1294757372, 1396182291, 1695183700, 1986661051, 2177026350, 2456956037, 2730485921, 2820302411, 3259730800, 3345764771, 3516065817, 3600352804, 4094571909, 275423344, 430227734, 506948616, 659060556, 883997877, 958139571, 1322822218, 1537002063, 1747873779, 1955562222, 2024104815, 2227730452, 2361852424, 2428436474, 2756734187, 3204031479, 3329325298]"

definition H256 :: "nat list" where
  "H256 = [1779033703, 3144134277, 1013904242, 2773480762, 1359893119, 2600822924, 528734635, 1541459225]"

definition be32 :: "nat \<Rightarrow> nat list" where
  "be32 x = [x div 16777216 mod 256, x div 65536 mod 256, x div 256 mod 256, x mod 256]"

definition be64 :: "nat \<Rightarrow> nat list" where
  "be64 x = be32 (x div 4294967296) @ be32 (x mod 4294967296)"

fun zeros :: "nat \<Rightarrow> nat list" where
  "zeros n = (if n = 0 then [] else 0 # zeros (n - 1))"

declare zeros.simps [simp del]

definition pad :: "nat list \<Rightarrow> nat list" where
  "pad m = m @ [128] @ zeros ((64 - (length m + 9) mod 64) mod 64) @ be64 (8 * length m)"

fun words :: "nat list \<Rightarrow> nat list" where
  "words (a # b # c # d # r) = (((a * 256 + b) * 256 + c) * 256 + d) # words r"
| "words _ = []"

definition schedule :: "nat list \<Rightarrow> nat list" where
  "schedule w16 =
     fold (\<lambda>t w. w @ [add32 (add32 (sigma1 (w ! (t - 2))) (w ! (t - 7)))
                             (add32 (sigma0 (w ! (t - 15))) (w ! (t - 16)))])
       [16..<64] w16"

fun round256 :: "nat \<times> nat \<Rightarrow> nat list \<Rightarrow> nat list" where
  "round256 (k, w) [a, b, c, d, e, f, g, h] =
     (let t1 = add32 (add32 (add32 h (Sigma1 e)) (add32 (Ch e f g) k)) w;
          t2 = add32 (Sigma0 a) (Maj a b c)
      in [add32 t1 t2, a, b, c, add32 d t1, e, f, g])"
| "round256 _ s = s"

definition compress :: "nat list \<Rightarrow> nat list \<Rightarrow> nat list" where
  "compress block h = map2 add32 h (fold round256 (zip K256 (schedule (words block))) h)"

fun blocks :: "nat list \<Rightarrow> nat list list" where
  "blocks m = (if length m < 64 then [] else take 64 m # blocks (drop 64 m))"

declare blocks.simps [simp del]

definition sha256 :: "nat list \<Rightarrow> nat list" where
  "sha256 m = (let p = pad m in concat (map be32 (fold compress (blocks p) H256)))"

text \<open>\<^verbatim>\<open>s.encode('utf-8')\<close>: the bytes of a text.\<close>

definition encode_utf8 :: "string \<Rightarrow> nat list" where
  "encode_utf8 s = map of_char s"

text \<open>\<^verbatim>\<open>sep.join(xs)\<close>.\<close>

fun join :: "string \<Rightarrow> string list \<Rightarrow> string" where
  "join sep [] = []"
| "join sep [x] = x"
| "join sep (x # y # r) = x @ sep @ join sep (y # r)"

text \<open>
  \<^verbatim>\<open>binascii.b2a_base64\<close> encodes three bytes as four characters of the base64
  alphabet, pads the last group with \<^verbatim>\<open>=\<close> and ends the line. \<^verbatim>\<open>base64.encodebytes\<close>
  applies it to each chunk of 57 bytes and joins the lines; its result is ASCII, and
  \<^verbatim>\<open>.decode('utf-8')\<close> reads it as text.
\<close>

definition b64chars :: string where
  "b64chars = ''ABCDEFGHIJKLMNOPQRSTUVWXYZabcdefghijklmnopqrstuvwxyz0123456789+/''"

fun b64 :: "nat list \<Rightarrow> string" where
  "b64 (a # b # c # r) =
     [b64chars ! (a div 4), b64chars ! ((a mod 4) * 16 + b div 16),
      b64chars ! ((b mod 16) * 4 + c div 64), b64chars ! (c mod 64)] @ b64 r"
| "b64 [a, b] =
     [b64chars ! (a div 4), b64chars ! ((a mod 4) * 16 + b div 16),
      b64chars ! ((b mod 16) * 4), CHR ''='']"
| "b64 [a] = [b64chars ! (a div 4), b64chars ! ((a mod 4) * 16), CHR ''='', CHR ''='']"
| "b64 [] = []"

definition b2a_base64 :: "nat list \<Rightarrow> string" where
  "b2a_base64 chunk = b64 chunk @ [CHR 0x0A]"

fun encodebytes :: "nat list \<Rightarrow> string" where
  "encodebytes s = (if s = [] then [] else b2a_base64 (take 57 s) @ encodebytes (drop 57 s))"

declare encodebytes.simps [simp del]

text \<open>\<^verbatim>\<open>encode_password\<close>, a static function of its two arguments.\<close>

definition encode_password :: "string \<Rightarrow> string \<Rightarrow> string" where
  "encode_password user password =
     (let bytes_str = join '','' (map (\<lambda>b. str_int (int b))
                         (sha256 (encode_utf8 (password @ ''#'' @ user @ ''@franka''))))
      in encodebytes (encode_utf8 bytes_str))"

text \<open>
  The digest as the specification words it:
  \<^verbatim>\<open>base64(join(",", SHA256(password + "#" + username + "@franka")))\<close>, with
  \<^verbatim>\<open>base64\<close> the encoding of RFC 4648, which has no line feeds.
\<close>

definition base64 :: "nat list \<Rightarrow> string" where
  "base64 s = b64 s"

definition encode_password_spec :: "string \<Rightarrow> string \<Rightarrow> string" where
  "encode_password_spec user password =
     base64 (encode_utf8 (join '','' (map (\<lambda>b. str_int (int b))
        (sha256 (encode_utf8 (password @ ''#'' @ user @ ''@franka''))))))"

text \<open>A text cut into lines of 76 characters, each line followed by a line feed.\<close>

fun lines76 :: "string \<Rightarrow> string" where
  "lines76 s = (if s = [] then [] else take 76 s @ [CHR 0x0A] @ lines76 (drop 76 s))"

declare lines76.simps [simp del]

text \<open>\<^verbatim>\<open>login\<close>: post the digest, keep the answer as the session cookie.\<close>

definition login :: "string \<Rightarrow> string \<Rightarrow> Desk \<Rightarrow> world \<Rightarrow> (error + unit) \<times> Desk \<times> world" where
  "login user password d w =
     (case request d Post ''/admin/api/login'' None
             (Some [(''login'', user), (''password'', encode_password user password)]) None 5 w of
        (Inl e, w1) \<Rightarrow> (Inl e, d, w1)
      | (Inr r, w1) \<Rightarrow>
          (Inr (), d\<lparr>authorization := Some (response_text r), logged_in := True, username := user\<rparr>,
           log_msg Info ''Login succesful.'' w1))"

subsection \<open>Sample sessions\<close>

text \<open>A session, an idle world and a response, for the concrete instances below.\<close>

definition example_desk :: Desk where
  "example_desk = \<lparr>legacy = False, platform = ''fr3'', hostname = ''robot.local'',
     logged_in = True, username = ''admin'', desk_token = Token0, authorization = Some ''cookie''\<rparr>"

definition quiet_world :: world where
  "quiet_world = \<lparr>responses = [], sent = [], stdout = [], logged = [], token_dir = False,
     token_file = None, navigation_events = [], safety_frames = []\<rparr>"

definition answer :: "int \<Rightarrow> string \<Rightarrow> payload \<Rightarrow> response" where
  "answer c t b = \<lparr>status_code = c, response_text = t, body = b\<rparr>"

text \<open>A request to \<^verbatim>\<open>/admin/api/control-token/request\<close>, with or without a query.\<close>

definition is_token_request :: "Desk \<Rightarrow> http_request \<Rightarrow> bool" where
  "is_token_request d q =
     (let p = urljoin (hostname d) ''/admin/api/control-token/request''
      in take (length p) (url q) = p)"

definition control_token_query :: "Desk \<Rightarrow> http_request" where
  "control_token_query d = \<lparr>meth = Get, url = urljoin (hostname d) ''/admin/api/control-token'',
      headers = None, json = None, files = None, timeout = 5\<rparr>"

text \<open>The device reports no active token, or one whose id is not the id held locally.\<close>

definition not_held :: "Desk \<Rightarrow> active_token option \<Rightarrow> bool" where
  "not_held d a =
     (case a of None \<Rightarrow> True | Some x \<Rightarrow> str_int (at_id x) \<noteq> token_id (desk_token d))"

definition stored_records :: "world \<Rightarrow> config" where
  "stored_records w = (case token_file w of None \<Rightarrow> [] | Some c \<Rightarrow> c)"

definition token_section :: "Token \<Rightarrow> fields" where
  "token_section t = [(''id'', token_id t), (''owned_by'', owned_by t), (''token'', token t)]"

definition all_unlocked :: "safety_status \<Rightarrow> bool" where
  "all_unlocked s = list_all (\<lambda>x. x) (map (\<lambda>b. b = ''Unlocked'') (brakeState s))"

definition locked7 :: safety_status where
  "locked7 = \<lparr>brakeState = replicate 7 ''Locked''\<rparr>"

definition mixed7 :: safety_status where
  "mixed7 = \<lparr>brakeState = [''Unlocked'', ''Unlocked'', ''Locked'', ''Unlocked'', ''Locked'',
                            ''Unlocked'', ''Unlocked'']\<rparr>"

definition unlocked7 :: safety_status where
  "unlocked7 = \<lparr>brakeState = replicate 7 ''Unlocked''\<rparr>"

definition holder :: active_token where
  "holder = \<lparr>at_id = 645396955, at_ownedBy = ''admin''\<rparr>"

definition operator_desk :: Desk where
  "operator_desk = example_desk\<lparr>username := ''operator'',
     desk_token := \<lparr>token_id = ''12'', owned_by = ''operator'', token = ''old''\<rparr>\<rparr>"

definition admin_desk :: Desk where
  "admin_desk = example_desk\<lparr>
     desk_token := \<lparr>token_id = ''645396955'', owned_by = ''admin'', token = ''key''\<rparr>\<rparr>"

definition held_world :: world where
  "held_world = quiet_world\<lparr>
     responses := [answer 200 ''held'' (ControlTokenStatus (Some holder))],
     token_file := Some [(''robot.local'', [(''id'', ''12''), (''owned_by'', ''operator''), (''token'', ''old'')])],
     token_dir := True\<rparr>"

definition takeover_world :: "button_event channel \<Rightarrow> world" where
  "takeover_world ch = held_world\<lparr>
     responses := [answer 200 ''held'' (ControlTokenStatus (Some holder)),
                   answer 200 ''granted'' (TokenGrant 77 ''fresh''),
                   answer 200 ''safety'' (SafetySettings 30)],
     navigation_events := ch\<rparr>"

definition late_press :: "button_event channel" where
  "late_press = [(3, Message [(''check'', True)]), (40, Message [(''circle'', True)])]"

definition early_press :: "button_event channel" where
  "early_press = [(2, Message [(''circle'', False)]), (7, Message [(''circle'', True)])]"

definition panda_desk :: Desk where
  "panda_desk = \<lparr>legacy = False, platform = ''panda'', hostname = ''robot.local'',
     logged_in = False, username = ''Not set'', desk_token = Token0, authorization = None\<rparr>"

definition free_world :: world where
  "free_world = quiet_world\<lparr>
     responses := [answer 200 ''free'' (ControlTokenStatus None),
                   answer 200 ''granted'' (TokenGrant 77 ''fresh'')]\<rparr>"

definition fresh_token :: Token where
  "fresh_token = \<lparr>token_id = ''77'', owned_by = ''admin'', token = ''fresh''\<rparr>"

definition three_hosts :: config where
  "three_hosts =
     [(''10.0.0.2'', [(''id'', ''5''), (''owned_by'', ''eve''), (''token'', ''a'')]),
      (''robot.local'', [(''id'', ''12''), (''owned_by'', ''admin''), (''token'', ''old'')]),
      (''10.0.0.3'', [(''id'', ''9''), (''owned_by'', ''bob''), (''token'', ''b'')])]"

section \<open>Properties\<close>

subsection \<open>Transport errors\<close>

text \<open>
  C1, as the code has it: for every response the device gives to a request made
  (\<^verbatim>\<open>get\<close> or \<^verbatim>\<open>post\<close>), \<^verbatim>\<open>_request\<close> raises exactly when the status code is not 200;
  the error carries the text of the response unchanged; a response with status 200 is
  returned as it is.
\<close>

theorem request_raises_iff_not_200:
  assumes "responses w = r # rs" and "m \<noteq> Delete"
  shows "fst (request d m path hdrs js fs tmo w) =
           (if status_code r = 200 then Inr r else Inl (ConnectionError (response_text r)))"
  using assms by (simp add: request_def Let_def)

theorem request_raises_iff_not_200_witness:
  "fst (request example_desk Get ''/admin/api/control-token'' None None None 5
          (quiet_world\<lparr>responses := [answer 404 ''File not found'' NotJson]\<rparr>))
     = Inl (ConnectionError ''File not found'')"
  using request_raises_iff_not_200 [where d = example_desk and m = Get
      and w = "quiet_world\<lparr>responses := [answer 404 ''File not found'' NotJson]\<rparr>"
      and r = "answer 404 ''File not found'' NotJson" and rs = "[]"
      and path = "''/admin/api/control-token''" and hdrs = None and js = None and fs = None
      and tmo = 5]
  by (simp add: answer_def)

text \<open>
  C1 as stated fails on a success status other than 200: a response with status 204 makes
  \<^verbatim>\<open>_request\<close> raise.
\<close>

theorem request_204_counterexample:
  "(200::int) \<le> 204 \<and> (204::int) < 300 \<and>
   fst (request example_desk Post ''/admin/api/reboot'' None None None 5
          (quiet_world\<lparr>responses := [answer 204 ''no content'' NotJson]\<rparr>))
     = Inl (ConnectionError ''no content'')"
  by (simp add: request_def Let_def answer_def)

subsection \<open>Control arbitration\<close>

lemma dec_nat_nonempty: "dec_nat n \<noteq> []"
  by (subst dec_nat.simps) simp

lemma str_int_nonempty: "str_int i \<noteq> []"
  by (simp add: str_int_def dec_nat_nonempty)

lemma request_ok:
  "responses w = r # rs \<Longrightarrow> status_code r = 200 \<Longrightarrow> m \<noteq> Delete \<Longrightarrow>
   request d m path hdrs js fs tmo w =
     (Inr r, w\<lparr>sent := sent w @ [\<lparr>meth = m, url = urljoin (hostname d) path, headers = hdrs,
                 json = (if m \<noteq> Get then js else None),
                 files = (if m \<noteq> Get then fs else None), timeout = tmo\<rparr>],
              responses := rs\<rparr>)"
  by (simp add: request_def Let_def)

lemma get_active_token_some:
  assumes "\<not> legacy d" "responses w = r # rs" "status_code r = 200"
    "body r = ControlTokenStatus a"
  shows "get_active_token d w =
           (Inr (case a of None \<Rightarrow> Token0
                 | Some x \<Rightarrow> Token0\<lparr>token_id := str_int (at_id x), owned_by := at_ownedBy x\<rparr>),
            w\<lparr>sent := sent w @ [control_token_query d], responses := rs\<rparr>)"
  using assms
  by (simp add: get_active_token_def request_ok response_json_def control_token_query_def
        split: option.splits)

lemma query_is_not_token_request: "\<not> is_token_request d (control_token_query d)"
proof
  assume "is_token_request d (control_token_query d)"
  then have "length (take (length (urljoin (hostname d) ''/admin/api/control-token/request''))
                 (urljoin (hostname d) ''/admin/api/control-token''))
             = length (urljoin (hostname d) ''/admin/api/control-token/request'')"
    by (simp add: is_token_request_def control_token_query_def Let_def)
  then show False by (simp add: urljoin_def)
qed

text \<open>
  C10: when the device reports no active token and the session holds the empty sentinel,
  \<^verbatim>\<open>check_has_control\<close> returns \<^verbatim>\<open>True\<close>: both ids are the empty string.
\<close>

theorem check_has_control_without_holder:
  assumes "\<not> legacy d" "responses w = r # rs" "status_code r = 200"
    "body r = ControlTokenStatus None" "desk_token d = Token0"
  shows "fst (get_active_token d w) = Inr Token0 \<and> token_id (desk_token d) = ''''
         \<and> token_id Token0 = '''' \<and> fst (check_has_control d w) = Inr True"
  using assms by (simp add: check_has_control_def get_active_token_some Token0_def)

theorem check_has_control_without_holder_witness:
  "fst (check_has_control example_desk
          (quiet_world\<lparr>responses := [answer 200 ''{activeToken: null}'' (ControlTokenStatus None)]\<rparr>))
     = Inr True"
  using check_has_control_without_holder [of example_desk
      "quiet_world\<lparr>responses := [answer 200 ''{activeToken: null}'' (ControlTokenStatus None)]\<rparr>"
      "answer 200 ''{activeToken: null}'' (ControlTokenStatus None)" "[]"]
  by (simp add: answer_def example_desk_def)

lemma str_int_holder: "str_int 645396955 = ''645396955''"
  by (simp add: str_int_def dec_nat.simps digit_char_def)

lemma str_int_77: "str_int 77 = ''77''"
  by (simp add: str_int_def dec_nat.simps digit_char_def)

text \<open>
  C4: \<^verbatim>\<open>take_control(force=False)\<close> while the device reports an active token whose id
  is not the id held locally returns \<^verbatim>\<open>False\<close>; the only request sent is the query of
  \<^verbatim>\<open>/admin/api/control-token\<close>, none goes to \<^verbatim>\<open>/admin/api/control-token/request\<close>, and
  neither the token file nor the session changes.
\<close>

theorem take_control_held_by_other:
  assumes "\<not> legacy d" and "responses w = r # rs" and "status_code r = 200"
    and "body r = ControlTokenStatus (Some a)"
    and "str_int (at_id a) \<noteq> token_id (desk_token d)"
  shows "case take_control False d w of
           (res, d', w') \<Rightarrow>
             res = Inr False \<and> d' = d
             \<and> sent w' = sent w @ [control_token_query d]
             \<and> filter (is_token_request d) (sent w') = filter (is_token_request d) (sent w)
             \<and> token_file w' = token_file w \<and> token_dir w' = token_dir w"
  using assms
  by (simp add: take_control_def get_active_token_some str_int_nonempty Token0_def log_msg_def
        query_is_not_token_request)

theorem take_control_held_by_other_witness:
  "take_control False operator_desk held_world =
     (Inr False, operator_desk,
      held_world\<lparr>responses := [], sent := [control_token_query operator_desk],
        logged := [(Warning, ''Cannot take control. User admin is in control.'')]\<rparr>)"
proof -
  have "str_int (at_id holder) \<noteq> token_id (desk_token operator_desk)"
    by (simp add: holder_def operator_desk_def example_desk_def str_int_holder)
  from take_control_held_by_other [of operator_desk held_world
      "answer 200 ''held'' (ControlTokenStatus (Some holder))" "[]" holder, OF _ _ _ _ this]
  have "fst (take_control False operator_desk held_world) = Inr False"
    by (simp add: operator_desk_def example_desk_def held_world_def quiet_world_def answer_def
          split: prod.splits)
  then show ?thesis
    by (simp add: take_control_def get_active_token_some [where r = "answer 200 ''held'' (ControlTokenStatus (Some holder))" and rs = "[]"]
          operator_desk_def example_desk_def held_world_def quiet_world_def answer_def holder_def
          str_int_holder Token0_def log_msg_def control_token_query_def)
qed

text \<open>
  C5: when the id held locally is the id of the device's active token, \<^verbatim>\<open>take_control\<close>
  returns \<^verbatim>\<open>True\<close> whatever \<^verbatim>\<open>force\<close> is; it sends the query only, no request to
  \<^verbatim>\<open>/admin/api/control-token/request\<close>, and persists nothing.
\<close>

theorem take_control_already_held:
  assumes "\<not> legacy d" and "responses w = r # rs" and "status_code r = 200"
    and "body r = ControlTokenStatus (Some a)"
    and "token_id (desk_token d) = str_int (at_id a)"
  shows "case take_control force d w of
           (res, d', w') \<Rightarrow>
             res = Inr True \<and> d' = d
             \<and> sent w' = sent w @ [control_token_query d]
             \<and> filter (is_token_request d) (sent w') = filter (is_token_request d) (sent w)
             \<and> token_file w' = token_file w \<and> token_dir w' = token_dir w"
  using assms
  by (simp add: take_control_def get_active_token_some str_int_nonempty Token0_def log_msg_def
        query_is_not_token_request)

theorem take_control_already_held_witness:
  "fst (take_control True admin_desk held_world) = Inr True
   \<and> fst (take_control False admin_desk held_world) = Inr True
   \<and> sent (snd (snd (take_control True admin_desk held_world))) = [control_token_query admin_desk]
   \<and> token_file (snd (snd (take_control True admin_desk held_world))) = token_file held_world"
proof -
  have h: "token_id (desk_token admin_desk) = str_int (at_id holder)"
    by (simp add: holder_def admin_desk_def example_desk_def str_int_holder)
  have l: "\<not> legacy admin_desk" by (simp add: admin_desk_def example_desk_def)
  have r: "responses held_world = answer 200 ''held'' (ControlTokenStatus (Some holder)) # []"
    by (simp add: held_world_def quiet_world_def)
  have s: "status_code (answer 200 ''held'' (ControlTokenStatus (Some holder))) = 200"
    and b: "body (answer 200 ''held'' (ControlTokenStatus (Some holder))) = ControlTokenStatus (Some holder)"
    by (simp_all add: answer_def)
  from take_control_already_held [OF l r s b h, of True]
    take_control_already_held [OF l r s b h, of False]
  show ?thesis
    by (simp add: held_world_def quiet_world_def split: prod.splits)
qed

text \<open>
  When the wait is cut off: every frame that arrives before the deadline is an event
  other than a press of the circle button.
\<close>

lemma wait_for_press_cases:
  "wait_for_press b ch = Pending
   \<or> (\<exists>n t e. wait_for_press b ch = Returned n t e \<and> (t, Message e) \<in> set ch
          \<and> map_of e b = Some True)
   \<or> (\<exists>n t x. wait_for_press b ch = Raised n t x
          \<and> ((t, Closed) \<in> set ch \<or> (t, Malformed) \<in> set ch))"
proof (induction ch)
  case Nil
  then show ?case by simp
next
  case (Cons f ch)
  obtain t fr where f: "f = (t, fr)" by (cases f)
  show ?case
  proof (cases fr)
    case (Message e)
    with f Cons.IH show ?thesis
      by (cases "wait_for_press b ch") auto
  next
    case Malformed
    with f show ?thesis by simp
  next
    case Closed
    with f show ?thesis by simp
  qed
qed

lemma no_press_before_deadline:
  assumes "\<forall>(t, f) \<in> set ch. t < seconds \<longrightarrow>
             (\<exists>e. f = Message e \<and> map_of e ''circle'' \<noteq> Some True)"
  shows "move_on_after seconds (wait_for_press ''circle'' ch) = Cancelled"
  using wait_for_press_cases [of "''circle''" ch] assms
  by (fastforce simp: move_on_after_def)

text \<open>
  C2: \<^verbatim>\<open>take_control(force=True)\<close> whose wait for the circle button is cut off by the
  deadline, \<^verbatim>\<open>tokenForceTimeout\<close> seconds as read from \<^verbatim>\<open>/admin/api/safety\<close>, returns
  \<^verbatim>\<open>False\<close> and leaves the token file and the held token as they were.
\<close>

theorem take_control_force_timeout:
  assumes "\<not> legacy d" and "responses w = r1 # r2 # r3 # rs"
    and "status_code r1 = 200" and "body r1 = ControlTokenStatus a" and "not_held d a"
    and "status_code r2 = 200" and "body r2 \<noteq> NotJson"
    and "status_code r3 = 200" and "body r3 = SafetySettings tmo" and "0 \<le> tmo"
    and "move_on_after (real_of_int tmo) (wait_for_press ''circle'' (navigation_events w)) = Cancelled"
  shows "case take_control True d w of
           (res, d', w') \<Rightarrow>
             res = Inr False \<and> d' = d \<and> token_file w' = token_file w \<and> token_dir w' = token_dir w"
  using assms
  by (cases a; cases "body r2")
     (simp_all add: take_control_def get_active_token_some str_int_nonempty Token0_def log_msg_def
        request_ok confirm_force_def response_json_def not_held_def)

theorem take_control_force_timeout_witness:
  "wait_for_press ''circle'' late_press = Returned 2 40 [(''circle'', True)]
   \<and> fst (take_control True operator_desk (takeover_world late_press)) = Inr False
   \<and> token_file (snd (snd (take_control True operator_desk (takeover_world late_press))))
       = token_file (takeover_world late_press)
   \<and> fst (snd (take_control True operator_desk (takeover_world late_press))) = operator_desk"
proof -
  have p: "wait_for_press ''circle'' late_press = Returned 2 40 [(''circle'', True)]"
    by (simp add: late_press_def)
  have n: "not_held operator_desk (Some holder)"
    by (simp add: not_held_def holder_def operator_desk_def example_desk_def str_int_holder)
  have c: "move_on_after (real_of_int 30)
             (wait_for_press ''circle'' (navigation_events (takeover_world late_press))) = Cancelled"
    by (simp add: takeover_world_def p move_on_after_def)
  from take_control_force_timeout [of operator_desk "takeover_world late_press"
      "answer 200 ''held'' (ControlTokenStatus (Some holder))"
      "answer 200 ''granted'' (TokenGrant 77 ''fresh'')"
      "answer 200 ''safety'' (SafetySettings 30)" "[]" "Some holder" 30, OF _ _ _ _ n _ _ _ _ _ c]
  show ?thesis
    by (simp add: p operator_desk_def example_desk_def takeover_world_def answer_def
          split: prod.splits)
qed

text \<open>
  C3: \<^verbatim>\<open>take_control(force=True)\<close> whose wait sees the circle button pressed before the
  deadline returns \<^verbatim>\<open>True\<close>, having written to the token file, under the session's host,
  the id the device issued, the session's user name as owner and the token value the device
  issued; the session holds that token, and loading the store gives it back.
\<close>

theorem take_control_force_confirmed:
  assumes "\<not> legacy d" and "responses w = r1 # r2 # r3 # rs"
    and "status_code r1 = 200" and "body r1 = ControlTokenStatus a" and "not_held d a"
    and "status_code r2 = 200" and "body r2 = TokenGrant gid secret"
    and "status_code r3 = 200" and "body r3 = SafetySettings tmo" and "0 \<le> tmo"
    and "wait_for_press ''circle'' (navigation_events w) = Returned n t e" and "t < real_of_int tmo"
  shows "case take_control True d w of
           (res, d', w') \<Rightarrow>
             res = Inr True
             \<and> desk_token d' = \<lparr>token_id = str_int gid, owned_by = username d, token = secret\<rparr>
             \<and> token_file w' = Some (AList.update (hostname d)
                  [(''id'', str_int gid), (''owned_by'', username d), (''token'', secret)]
                  (stored_records w))
             \<and> load_token d' w' = Inr \<lparr>token_id = str_int gid, owned_by = username d, token = secret\<rparr>"
  using assms
  by (cases a)
     (simp_all add: take_control_def get_active_token_some str_int_nonempty Token0_def log_msg_def
        request_ok confirm_force_def response_json_def not_held_def move_on_after_def save_token_def
        load_token_def has_section_def config_get_def AList.update_conv' AList.dom_update
        stored_records_def)

theorem take_control_force_confirmed_witness:
  "wait_for_press ''circle'' early_press = Returned 2 7 [(''circle'', True)]
   \<and> fst (take_control True operator_desk (takeover_world early_press)) = Inr True
   \<and> token_file (snd (snd (take_control True operator_desk (takeover_world early_press))))
       = Some [(''robot.local'', [(''id'', ''77''), (''owned_by'', ''operator''), (''token'', ''fresh'')])]
   \<and> desk_token (fst (snd (take_control True operator_desk (takeover_world early_press))))
       = \<lparr>token_id = ''77'', owned_by = ''operator'', token = ''fresh''\<rparr>"
proof -
  have p: "wait_for_press ''circle'' early_press = Returned 2 7 [(''circle'', True)]"
    by (simp add: early_press_def)
  have n: "not_held operator_desk (Some holder)"
    by (simp add: not_held_def holder_def operator_desk_def example_desk_def str_int_holder)
  have w: "wait_for_press ''circle'' (navigation_events (takeover_world early_press))
             = Returned 2 7 [(''circle'', True)]"
    by (simp add: takeover_world_def p)
  from take_control_force_confirmed [of operator_desk "takeover_world early_press"
      "answer 200 ''held'' (ControlTokenStatus (Some holder))"
      "answer 200 ''granted'' (TokenGrant 77 ''fresh'')"
      "answer 200 ''safety'' (SafetySettings 30)" "[]" "Some holder" 77 "''fresh''" 30
      2 7 "[(''circle'', True)]", OF _ _ _ _ n _ _ _ _ _ w]
  show ?thesis
    by (simp add: p operator_desk_def example_desk_def takeover_world_def held_world_def
          quiet_world_def answer_def str_int_77 stored_records_def split: prod.splits)
qed

subsection \<open>Token store\<close>

lemma filter_update_other:
  "filter (\<lambda>p. fst p \<noteq> k) (AList.update k v al) = filter (\<lambda>p. fst p \<noteq> k) al"
  by (induction al) auto

text \<open>
  C8: after \<^verbatim>\<open>_save_token\<close> the record set of the token file is the one before with the
  entry of this host replaced: every other host's entry is there as before, in the same
  order, this host's entry is the saved token, and the parent directory exists.
\<close>

theorem save_token_replaces_only_host:
  "case save_token t d w of
     (d', w') \<Rightarrow>
       map_of (stored_records w') = (map_of (stored_records w))(hostname d \<mapsto> token_section t)
       \<and> (\<forall>h. h \<noteq> hostname d \<longrightarrow> map_of (stored_records w') h = map_of (stored_records w) h)
       \<and> filter (\<lambda>p. fst p \<noteq> hostname d) (stored_records w')
           = filter (\<lambda>p. fst p \<noteq> hostname d) (stored_records w)
       \<and> token_file w' \<noteq> None \<and> token_dir w' \<and> desk_token d' = t"
  by (simp add: save_token_def stored_records_def token_section_def Let_def
        AList.update_conv' filter_update_other)

theorem save_token_replaces_only_host_witness:
  "token_file (snd (save_token fresh_token example_desk (quiet_world\<lparr>token_file := Some three_hosts\<rparr>)))
     = Some [(''10.0.0.2'', [(''id'', ''5''), (''owned_by'', ''eve''), (''token'', ''a'')]),
             (''robot.local'', [(''id'', ''77''), (''owned_by'', ''admin''), (''token'', ''fresh'')]),
             (''10.0.0.3'', [(''id'', ''9''), (''owned_by'', ''bob''), (''token'', ''b'')])]
   \<and> map_of (stored_records (snd (save_token fresh_token example_desk
               (quiet_world\<lparr>token_file := Some three_hosts\<rparr>)))) ''10.0.0.3''
       = map_of three_hosts ''10.0.0.3''
   \<and> token_dir (snd (save_token fresh_token example_desk (quiet_world\<lparr>token_file := Some three_hosts\<rparr>)))"
  using save_token_replaces_only_host [where t = fresh_token and d = example_desk
      and w = "quiet_world\<lparr>token_file := Some three_hosts\<rparr>"]
  by (simp add: save_token_def example_desk_def quiet_world_def stored_records_def
        three_hosts_def fresh_token_def split: prod.splits)

subsection \<open>Brake wait\<close>

lemma all_unlocked_iff: "all_unlocked s = (\<forall>b\<in>set (brakeState s). b = ''Unlocked'')"
  by (simp add: all_unlocked_def list_all_iff)

lemma all_unlocked_seven:
  assumes "length (brakeState s) = 7"
  shows "all_unlocked s = (brakeState s = replicate 7 ''Unlocked'')"
proof
  assume "all_unlocked s"
  then have "\<And>y. y \<in> set (brakeState s) \<Longrightarrow> y = ''Unlocked''"
    by (simp add: all_unlocked_iff)
  with assms show "brakeState s = replicate 7 ''Unlocked''"
    by (rule replicate_eqI)
next
  assume "brakeState s = replicate 7 ''Unlocked''"
  then show "all_unlocked s" by (simp add: all_unlocked_iff)
qed

lemma wait_for_brakes_first:
  assumes "i < length ch" and "ch ! i = (t, Message s)" and "all_unlocked s"
    and "\<forall>j<i. \<exists>t' s'. ch ! j = (t', Message s') \<and> \<not> all_unlocked s'"
  shows "wait_for_brakes_to_open ch = Returned (Suc i) t ()"
  using assms
proof (induction ch arbitrary: i)
  case Nil
  then show ?case by simp
next
  case (Cons f ch)
  show ?case
  proof (cases i)
    case 0
    with Cons.prems show ?thesis by (simp add: all_unlocked_def)
  next
    case (Suc k)
    from Cons.prems(4) Suc have "\<exists>t' s'. (f # ch) ! 0 = (t', Message s') \<and> \<not> all_unlocked s'"
      by blast
    then obtain t' s' where f: "f = (t', Message s')" and nu: "\<not> all_unlocked s'"
      by auto
    have "\<forall>j<k. \<exists>t' s'. ch ! j = (t', Message s') \<and> \<not> all_unlocked s'"
    proof (intro allI impI)
      fix j assume "j < k"
      then have "Suc j < i" using Suc by simp
      with Cons.prems(4) have "\<exists>t' s'. (f # ch) ! Suc j = (t', Message s') \<and> \<not> all_unlocked s'"
        by blast
      then show "\<exists>t' s'. ch ! j = (t', Message s') \<and> \<not> all_unlocked s'"
        by simp
    qed
    with Cons.IH [of k] Cons.prems Suc
    have "wait_for_brakes_to_open ch = Returned (Suc k) t ()" by simp
    with f nu Suc show ?thesis by (simp add: all_unlocked_def)
  qed
qed

lemma wait_for_brakes_returned:
  "wait_for_brakes_to_open ch = Returned n t u \<Longrightarrow>
     0 < n \<and> n \<le> length ch \<and> (\<exists>s. ch ! (n - 1) = (t, Message s) \<and> all_unlocked s)"
proof (induction ch arbitrary: n)
  case Nil
  then show ?case by simp
next
  case (Cons f ch)
  obtain t' fr where f: "f = (t', fr)" by (cases f)
  show ?case
  proof (cases fr)
    case Closed
    with Cons.prems f show ?thesis by simp
  next
    case Malformed
    with Cons.prems f show ?thesis by simp
  next
    case (Message s)
    show ?thesis
    proof (cases "all_unlocked s")
      case True
      with Cons.prems f Message show ?thesis by (simp add: all_unlocked_def)
    next
      case False
      with Cons.prems f Message have "later (wait_for_brakes_to_open ch) = Returned n t u"
        by (simp add: all_unlocked_def)
      then obtain m where m: "wait_for_brakes_to_open ch = Returned m t u" and n: "n = Suc m"
        by (cases "wait_for_brakes_to_open ch") auto
      from Cons.IH [OF m]
      have "0 < m" "m \<le> length ch" "\<exists>s. ch ! (m - 1) = (t, Message s) \<and> all_unlocked s"
        by auto
      with n show ?thesis by (cases m) auto
    qed
  qed
qed

lemma locked_not_all_unlocked: "''Locked'' \<in> set (brakeState s) \<Longrightarrow> \<not> all_unlocked s"
proof
  assume "''Locked'' \<in> set (brakeState s)" and "all_unlocked s"
  then have "''Locked'' = ''Unlocked''" by (simp add: all_unlocked_iff)
  then show False by simp
qed

text \<open>
  C9: on a channel of safety-status messages with seven brake entries each,
  \<^verbatim>\<open>wait_for_brakes_to_open\<close> returns on the first message whose seven entries are all
  \<^verbatim>\<open>"Unlocked"\<close>; whenever it returns, the message it returns on has no \<^verbatim>\<open>"Locked"\<close>
  entry; and on the script seven times locked, mixed, seven times unlocked it returns on
  the third message.
\<close>

theorem wait_for_brakes_to_open_resolves:
  "(\<forall>i t s. i < length ch \<and> ch ! i = (t, Message s) \<and> brakeState s = replicate 7 ''Unlocked''
        \<and> (\<forall>j<i. \<exists>t' s'. ch ! j = (t', Message s') \<and> length (brakeState s') = 7
                 \<and> brakeState s' \<noteq> replicate 7 ''Unlocked'')
      \<longrightarrow> wait_for_brakes_to_open ch = Returned (Suc i) t ())
   \<and> (\<forall>n t u. wait_for_brakes_to_open ch = Returned n t u
      \<longrightarrow> 0 < n \<and> n \<le> length ch
          \<and> (\<exists>s. ch ! (n - 1) = (t, Message s) \<and> ''Locked'' \<notin> set (brakeState s)))
   \<and> wait_for_brakes_to_open [(t1, Message locked7), (t2, Message mixed7), (t3, Message unlocked7)]
       = Returned 3 t3 ()"
proof (intro conjI allI impI)
  fix i t s
  assume a: "i < length ch \<and> ch ! i = (t, Message s) \<and> brakeState s = replicate 7 ''Unlocked''
        \<and> (\<forall>j<i. \<exists>t' s'. ch ! j = (t', Message s') \<and> length (brakeState s') = 7
                 \<and> brakeState s' \<noteq> replicate 7 ''Unlocked'')"
  then have "all_unlocked s" by (simp add: all_unlocked_seven)
  moreover have "\<forall>j<i. \<exists>t' s'. ch ! j = (t', Message s') \<and> \<not> all_unlocked s'"
  proof (intro allI impI)
    fix j assume "j < i"
    with a obtain t' s' where "ch ! j = (t', Message s')" "length (brakeState s') = 7"
      "brakeState s' \<noteq> replicate 7 ''Unlocked''" by blast
    then show "\<exists>t' s'. ch ! j = (t', Message s') \<and> \<not> all_unlocked s'"
      by (simp add: all_unlocked_seven)
  qed
  moreover from a have "i < length ch" "ch ! i = (t, Message s)" by simp_all
  ultimately show "wait_for_brakes_to_open ch = Returned (Suc i) t ()"
    by (intro wait_for_brakes_first)
next
  fix n t u
  assume r: "wait_for_brakes_to_open ch = Returned n t u"
  from wait_for_brakes_returned [OF r] show "0 < n" "n \<le> length ch" by auto
  from wait_for_brakes_returned [OF r]
  obtain s where "ch ! (n - 1) = (t, Message s)" "all_unlocked s"
    by auto
  then show "\<exists>s. ch ! (n - 1) = (t, Message s) \<and> ''Locked'' \<notin> set (brakeState s)"
    using locked_not_all_unlocked by blast
next
  show "wait_for_brakes_to_open [(t1, Message locked7), (t2, Message mixed7), (t3, Message unlocked7)]
       = Returned 3 t3 ()"
    by (simp add: locked7_def mixed7_def unlocked7_def eval_nat_numeral)
qed

theorem wait_for_brakes_to_open_resolves_witness:
  "wait_for_brakes_to_open [(1, Message locked7), (2, Message mixed7), (3, Message unlocked7),
                            (4, Message unlocked7)] = Returned 3 3 ()"
proof -
  let ?ch = "[(1, Message locked7), (2, Message mixed7), (3, Message unlocked7), (4::real, Message unlocked7)]"
  have e: "\<forall>j<2. \<exists>t' s'. ?ch ! j = (t', Message s') \<and> length (brakeState s') = 7
                 \<and> brakeState s' \<noteq> replicate 7 ''Unlocked''"
  proof (intro allI impI)
    fix j :: nat assume "j < 2"
    then have "j = 0 \<or> j = 1" by arith
    then show "\<exists>t' s'. ?ch ! j = (t', Message s') \<and> length (brakeState s') = 7
                 \<and> brakeState s' \<noteq> replicate 7 ''Unlocked''"
      by (auto simp: locked7_def mixed7_def eval_nat_numeral)
  qed
  have "2 < length ?ch \<and> ?ch ! 2 = (3, Message unlocked7)
        \<and> brakeState unlocked7 = replicate 7 ''Unlocked''"
    by (simp add: unlocked7_def)
  with e wait_for_brakes_to_open_resolves [of ?ch 0 0 0]
  have "wait_for_brakes_to_open ?ch = Returned (Suc 2) 3 ()" by blast
  then show ?thesis by (simp add: eval_nat_numeral)
qed

subsection \<open>Platform and legacy flag\<close>

text \<open>
  C6, as the code has it: \<^verbatim>\<open>take_control\<close>, \<^verbatim>\<open>activate_fci\<close> and \<^verbatim>\<open>deactivate_fci\<close> do
  nothing and succeed when the session's \<^verbatim>\<open>_legacy\<close> flag is set (\<^verbatim>\<open>take_control\<close> returns
  \<^verbatim>\<open>True\<close>, no request is sent, nothing changes); \<^verbatim>\<open>set_mode\<close> on a session whose
  platform is \<^verbatim>\<open>'panda'\<close> prints that the platform does not support the function and
  sends no request.
\<close>

theorem legacy_flag_and_panda_platform:
  "(legacy d \<longrightarrow> take_control force d w = (Inr True, d, w)
        \<and> activate_fci d w = (Inr (), w) \<and> deactivate_fci d w = (Inr (), w))
   \<and> (platform d = ''panda'' \<longrightarrow>
        set_mode mode d w = (Inr (), py_print ''Old panda platform does not support this function'' w)
        \<and> sent (snd (set_mode mode d w)) = sent w)"
  by (simp add: take_control_def activate_fci_def deactivate_fci_def set_mode_def py_print_def)

theorem legacy_flag_and_panda_platform_witness:
  "take_control True (panda_desk\<lparr>legacy := True\<rparr>) free_world
     = (Inr True, panda_desk\<lparr>legacy := True\<rparr>, free_world)
   \<and> activate_fci (panda_desk\<lparr>legacy := True\<rparr>) free_world = (Inr (), free_world)
   \<and> deactivate_fci (panda_desk\<lparr>legacy := True\<rparr>) free_world = (Inr (), free_world)
   \<and> stdout (snd (set_mode ''execution'' panda_desk free_world))
       = [''Old panda platform does not support this function'']
   \<and> sent (snd (set_mode ''execution'' panda_desk free_world)) = []"
  using legacy_flag_and_panda_platform [of "panda_desk\<lparr>legacy := True\<rparr>" True free_world "''execution''"]
    legacy_flag_and_panda_platform [of panda_desk True free_world "''execution''"]
  by (simp add: panda_desk_def py_print_def free_world_def quiet_world_def)

text \<open>
  C6 as stated fails: a session constructed for the platform \<^verbatim>\<open>'panda'\<close> has the flag
  unset, and its \<^verbatim>\<open>take_control\<close> and \<^verbatim>\<open>activate_fci\<close> send requests to the device.
\<close>

theorem panda_take_control_counterexample:
  "init ''robot.local'' ''panda'' free_world = Inr panda_desk
   \<and> fst (take_control False panda_desk free_world) = Inr True
   \<and> map url (sent (snd (snd (take_control False panda_desk free_world))))
       = [''https://robot.local/admin/api/control-token'',
          ''https://robot.local/admin/api/control-token/request'']
   \<and> map url (sent (snd (activate_fci panda_desk free_world)))
       = [''https://robot.local/admin/api/control-token/fci'']"
  by (simp add: init_def lower_def lower_char_def load_token_def panda_desk_def free_world_def
        quiet_world_def Let_def Token0_def take_control_def get_active_token_def request_def
        answer_def response_json_def urljoin_def save_token_def log_msg_def activate_fci_def)

subsection \<open>Password digest\<close>

lemmas sha_defs = sha256_def pad_def be64_def be32_def compress_def K256_def H256_def
  add32_def rotr_def shr_def not32_def Ch_def Maj_def Sigma0_def Sigma1_def sigma0_def sigma1_def
  Let_def schedule_def blocks.simps zeros.simps

text \<open>The model of \<^verbatim>\<open>hashlib.sha256\<close> on the test vector \<^verbatim>\<open>"abc"\<close> of FIPS 180.\<close>

lemma sha256_abc:
  "sha256 (encode_utf8 ''abc'') =
     [186, 120, 22, 191, 143, 1, 207, 234, 65, 65, 64, 222, 93, 174, 34, 35,
      176, 3, 97, 163, 150, 23, 122, 156, 180, 16, 255, 97, 242, 0, 21, 173]"
  by (simp add: encode_utf8_def sha_defs)

lemma b64_append: "3 dvd length xs \<Longrightarrow> b64 (xs @ ys) = b64 xs @ b64 ys"
proof (induction xs rule: b64.induct)
  case (1 a b c r)
  from "1.prems" have "3 dvd Suc (Suc (Suc (length r)))" by simp
  then have "3 dvd length r" by presburger
  with "1.IH" show ?case by simp
next
  case (2 a b)
  then have "(3::nat) dvd Suc (Suc 0)" by simp
  then have False by presburger
  then show ?case ..
next
  case (3 a)
  then have "(3::nat) dvd Suc 0" by simp
  then have False by presburger
  then show ?case ..
next
  case 4
  then show ?case by simp
qed

lemma length_b64: "length (b64 xs) = 4 * ((length xs + 2) div 3)"
proof (induction xs rule: b64.induct)
  case (1 a b c r)
  have "(length (a # b # c # r) + 2) div 3 = Suc ((length r + 2) div 3)" by simp
  with 1 show ?case by simp
qed simp_all

lemma b64_Nil_iff: "b64 xs = [] \<longleftrightarrow> xs = []"
  by (induction xs rule: b64.induct) simp_all

text \<open>
  Encoding chunk by chunk gives the base64 text of the whole input, cut into lines: a
  chunk of 57 bytes is 19 groups of three and fills a line of 76 characters.
\<close>

lemma encodebytes_lines: "encodebytes s = lines76 (b64 s)"
proof (induction s rule: encodebytes.induct)
  case (1 s)
  show ?case
  proof (cases "s = []")
    case True
    then show ?thesis by (simp add: encodebytes.simps lines76.simps)
  next
    case False
    note ne = False
    from 1 ne have IH: "encodebytes (drop 57 s) = lines76 (b64 (drop 57 s))" by simp
    have nb: "b64 s \<noteq> []" using ne by (simp add: b64_Nil_iff)
    show ?thesis
    proof (cases "length s \<le> 57")
      case True
      then have "length (b64 s) \<le> 76" by (simp add: length_b64)
      with True ne nb show ?thesis
        by (simp add: encodebytes.simps [of s] lines76.simps [of "b64 s"] b2a_base64_def
              encodebytes.simps [of "[]"] lines76.simps [of "[]"])
    next
      case False
      then have l: "length (take 57 s) = 57" by simp
      then have d: "3 dvd length (take 57 s)" by simp
      have "b64 s = b64 (take 57 s @ drop 57 s)" by simp
      also have "\<dots> = b64 (take 57 s) @ b64 (drop 57 s)" using d by (rule b64_append)
      finally have s: "b64 s = b64 (take 57 s) @ b64 (drop 57 s)" .
      have l76: "length (b64 (take 57 s)) = 76" using l by (simp add: length_b64)
      have "take 76 (b64 s) = b64 (take 57 s)" "drop 76 (b64 s) = b64 (drop 57 s)"
        using l76 by (simp_all add: s)
      with ne nb IH show ?thesis
        by (simp add: encodebytes.simps [of s] lines76.simps [of "b64 s"] b2a_base64_def)
    qed
  qed
qed

text \<open>
  C7, as the code has it: \<^verbatim>\<open>encode_password\<close> is a function of the user name and the
  password alone, and its value is the base64 encoding of the comma-joined decimal byte
  values of the SHA-256 digest of \<^verbatim>\<open>password + "#" + username + "@franka"\<close>, cut into
  lines of 76 characters with a line feed after every line, the last one too.
\<close>

theorem encode_password_lines:
  "encode_password user password = lines76 (encode_password_spec user password)"
  by (simp add: encode_password_def encode_password_spec_def base64_def encodebytes_lines)

text \<open>The user \<^verbatim>\<open>admin\<close> with the password \<^verbatim>\<open>secret\<close>, step by step.\<close>

lemma digest_admin_secret:
  "sha256 (encode_utf8 (''secret'' @ ''#'' @ ''admin'' @ ''@franka'')) =
     [49, 115, 66, 129, 189, 47, 116, 146, 118, 231, 248, 108, 123, 116, 149, 219,
      172, 14, 135, 84, 94, 213, 231, 202, 255, 6, 216, 150, 158, 38, 6, 215]"
  by (simp add: encode_utf8_def sha_defs)

lemma bytes_str_admin_secret:
  "join '','' (map (\<lambda>b. str_int (int b))
     [49, 115, 66, 129, 189, 47, 116, 146, 118, 231, 248, 108, 123, 116, 149, 219,
      172, 14, 135, 84, 94, 213, 231, 202, 255, 6, 216, 150, 158, 38, 6, 215])
    = ''49,115,66,129,189,47,116,146,118,231,248,108,123,116,149,219,172,14,135,84,94,213,231,202,255,6,216,150,158,38,6,215''"
  by (simp add: str_int_def dec_nat.simps digit_char_def)

lemma base64_admin_secret:
  "b64 (encode_utf8 ''49,115,66,129,189,47,116,146,118,231,248,108,123,116,149,219,172,14,135,84,94,213,231,202,255,6,216,150,158,38,6,215'')
    = ''NDksMTE1LDY2LDEyOSwxODksNDcsMTE2LDE0NiwxMTgsMjMxLDI0OCwxMDgsMTIzLDExNiwxNDksMjE5LDE3MiwxNCwxMzUsODQsOTQsMjEzLDIzMSwyMDIsMjU1LDYsMjE2LDE1MCwxNTgsMzgsNiwyMTU=''"
  by (simp add: encode_utf8_def b64chars_def)

lemma spec_admin_secret:
  "encode_password_spec ''admin'' ''secret'' = ''NDksMTE1LDY2LDEyOSwxODksNDcsMTE2LDE0NiwxMTgsMjMxLDI0OCwxMDgsMTIzLDExNiwxNDksMjE5LDE3MiwxNCwxMzUsODQsOTQsMjEzLDIzMSwyMDIsMjU1LDYsMjE2LDE1MCwxNTgsMzgsNiwyMTU=''"
  by (simp only: encode_password_spec_def base64_def digest_admin_secret bytes_str_admin_secret
        base64_admin_secret)

lemma lines_admin_secret:
  "lines76 ''NDksMTE1LDY2LDEyOSwxODksNDcsMTE2LDE0NiwxMTgsMjMxLDI0OCwxMDgsMTIzLDExNiwxNDksMjE5LDE3MiwxNCwxMzUsODQsOTQsMjEzLDIzMSwyMDIsMjU1LDYsMjE2LDE1MCwxNTgsMzgsNiwyMTU=''
   = ''NDksMTE1LDY2LDEyOSwxODksNDcsMTE2LDE0NiwxMTgsMjMxLDI0OCwxMDgsMTIzLDExNiwxNDks\<newline>MjE5LDE3MiwxNCwxMzUsODQsOTQsMjEzLDIzMSwyMDIsMjU1LDYsMjE2LDE1MCwxNTgsMzgsNiwy\<newline>MTU=\<newline>''"
  by (simp add: lines76.simps)

lemma code_admin_secret:
  "encode_password ''admin'' ''secret''
   = ''NDksMTE1LDY2LDEyOSwxODksNDcsMTE2LDE0NiwxMTgsMjMxLDI0OCwxMDgsMTIzLDExNiwxNDks\<newline>MjE5LDE3MiwxNCwxMzUsODQsOTQsMjEzLDIzMSwyMDIsMjU1LDYsMjE2LDE1MCwxNTgsMzgsNiwy\<newline>MTU=\<newline>''"
  by (simp only: encode_password_def Let_def digest_admin_secret bytes_str_admin_secret
        encodebytes_lines base64_admin_secret lines_admin_secret)

theorem encode_password_lines_witness:
  "encode_password ''admin'' ''secret''
   = ''NDksMTE1LDY2LDEyOSwxODksNDcsMTE2LDE0NiwxMTgsMjMxLDI0OCwxMDgsMTIzLDExNiwxNDks\<newline>MjE5LDE3MiwxNCwxMzUsODQsOTQsMjEzLDIzMSwyMDIsMjU1LDYsMjE2LDE1MCwxNTgsMzgsNiwy\<newline>MTU=\<newline>''"
  using encode_password_lines [of "''admin''" "''secret''"]
  by (simp only: spec_admin_secret lines_admin_secret)

text \<open>
  C7 as stated fails: the value of \<^verbatim>\<open>encode_password\<close> has line feeds, after the 76th
  character of each line and at the end, which the base64 encoding does not have.
\<close>

theorem encode_password_counterexample:
  "encode_password ''admin'' ''secret''
     = ''NDksMTE1LDY2LDEyOSwxODksNDcsMTE2LDE0NiwxMTgsMjMxLDI0OCwxMDgsMTIzLDExNiwxNDks\<newline>MjE5LDE3MiwxNCwxMzUsODQsOTQsMjEzLDIzMSwyMDIsMjU1LDYsMjE2LDE1MCwxNTgsMzgsNiwy\<newline>MTU=\<newline>''
   \<and> encode_password_spec ''admin'' ''secret''
     = ''NDksMTE1LDY2LDEyOSwxODksNDcsMTE2LDE0NiwxMTgsMjMxLDI0OCwxMDgsMTIzLDExNiwxNDksMjE5LDE3MiwxNCwxMzUsODQsOTQsMjEzLDIzMSwyMDIsMjU1LDYsMjE2LDE1MCwxNTgsMzgsNiwyMTU=''
   \<and> encode_password ''admin'' ''secret'' \<noteq> encode_password_spec ''admin'' ''secret''"
  by (simp add: code_admin_secret spec_admin_secret)

end
